theory Spec2Isabelle
  imports Main
begin

section \<open>HydraTrack: the progression state\<close>

text \<open>
  A shallow embedding of the game state and rules of \<^verbatim>\<open>src/app.js\<close> (class
  \<^verbatim>\<open>HydraTrack\<close>, class \<^verbatim>\<open>SyncManager\<close>). The JavaScript object \<^verbatim>\<open>this.state\<close>
  is a record, every method that mutates it is a function from state to state, and
  the clock (\<^verbatim>\<open>new Date()\<close>) is an argument \<open>now\<close> read once per call.

  Numbers are \<open>int\<close>: all quantities of the program are integers far below \<open>2^53\<close>,
  where JavaScript's doubles are exact. An instant is the number of milliseconds
  since the epoch in local time; \<open>toDateString\<close> maps an instant to its calendar day
  (a day number stands for the string \<^verbatim>\<open>"Mon Nov 02 2026"\<close>, which the code only ever
  compares for equality) and \<open>getHours\<close> to its hour of the day.
\<close>

type_synonym instant = int
type_synonym day = int

definition msPerDay :: int where
  "msPerDay = 86400000"

definition toDateString :: "instant \<Rightarrow> day" where
  "toDateString t = t div msPerDay"

definition getHours :: "instant \<Rightarrow> int" where
  "getHours t = (t mod msPerDay) div 3600000"

record entry =
  amount :: int
  timestamp :: instant
  date :: day

record settings =
  soundEnabled :: bool
  notificationsEnabled :: bool
  reminderInterval :: int
  startTime :: string
  endTime :: string

record stats =
  totalDays :: int
  totalWater :: int
  perfectDays :: int
  bestStreak :: int
  glassesCount :: int

record state =
  currentIntake :: int
  dailyGoal :: int
  xp :: int
  totalXp :: int
  level :: int
  streak :: int
  lastDrinkDate :: "day option"
  history :: "entry list"
  achievements :: "string \<rightharpoonup> instant"
  settings :: settings
  stats :: stats

text \<open>The state built by the constructor (lines 204--228).\<close>

definition initialState :: state where
  "initialState =
     \<lparr> currentIntake = 0, dailyGoal = 2000, xp = 0, totalXp = 0, level = 1, streak = 0,
       lastDrinkDate = None, history = [], achievements = Map.empty,
       settings = \<lparr> soundEnabled = True, notificationsEnabled = False,
                    reminderInterval = 60, startTime = ''08:00'', endTime = ''22:00'' \<rparr>,
       stats = \<lparr> totalDays = 0, totalWater = 0, perfectDays = 0, bestStreak = 0,
                 glassesCount = 0 \<rparr> \<rparr>"

subsection \<open>The level table and the achievement catalogue\<close>

record levelEntry =
  levelNo :: int
  title :: string
  xpRequired :: int

definition levels :: "levelEntry list" where
  "levels =
     [ \<lparr> levelNo = 1, title = ''Hydration Rookie'', xpRequired = 0 \<rparr>,
       \<lparr> levelNo = 2, title = ''Water Apprentice'', xpRequired = 100 \<rparr>,
       \<lparr> levelNo = 3, title = ''Hydration Enthusiast'', xpRequired = 250 \<rparr>,
       \<lparr> levelNo = 4, title = ''Water Warrior'', xpRequired = 500 \<rparr>,
       \<lparr> levelNo = 5, title = ''Hydration Hero'', xpRequired = 800 \<rparr>,
       \<lparr> levelNo = 6, title = ''Aqua Champion'', xpRequired = 1200 \<rparr>,
       \<lparr> levelNo = 7, title = ''Water Master'', xpRequired = 1700 \<rparr>,
       \<lparr> levelNo = 8, title = ''Hydration Legend'', xpRequired = 2300 \<rparr>,
       \<lparr> levelNo = 9, title = ''Aqua Sage'', xpRequired = 3000 \<rparr>,
       \<lparr> levelNo = 10, title = ''Hydration Deity'', xpRequired = 4000 \<rparr> ]"

text \<open>
  An achievement definition (lines 245--261). The fields \<^verbatim>\<open>desc\<close> and \<^verbatim>\<open>icon\<close> are
  display text and are left out; \<^verbatim>\<open>id\<close> and \<^verbatim>\<open>xp\<close> are renamed, since \<open>id\<close> is
  a constant of HOL and \<open>xp\<close> a field of the state.
\<close>

record achievement =
  achId :: string
  name :: string
  achXp :: int
  condition :: "state \<Rightarrow> bool"

definition achievementsDef :: "achievement list" where
  "achievementsDef =
     [ \<lparr> achId = ''first_drop'', name = ''First Drop'', achXp = 25,
         condition = (\<lambda>s. glassesCount (stats s) \<ge> 1) \<rparr>,
       \<lparr> achId = ''getting_started'', name = ''Getting Started'', achXp = 50,
         condition = (\<lambda>s. perfectDays (stats s) \<ge> 1) \<rparr>,
       \<lparr> achId = ''hydration_habit'', name = ''Hydration Habit'', achXp = 75,
         condition = (\<lambda>s. streak s \<ge> 3) \<rparr>,
       \<lparr> achId = ''week_warrior'', name = ''Week Warrior'', achXp = 150,
         condition = (\<lambda>s. streak s \<ge> 7) \<rparr>,
       \<lparr> achId = ''hydration_hero'', name = ''Hydration Hero'', achXp = 300,
         condition = (\<lambda>s. streak s \<ge> 14) \<rparr>,
       \<lparr> achId = ''monthly_master'', name = ''Monthly Master'', achXp = 500,
         condition = (\<lambda>s. streak s \<ge> 30) \<rparr>,
       \<lparr> achId = ''liter_club'', name = ''Liter Club'', achXp = 50,
         condition = (\<lambda>s. list_ex (\<lambda>h. amount h \<ge> 1000) (history s)) \<rparr>,
       \<lparr> achId = ''early_bird'', name = ''Early Bird'', achXp = 40,
         condition = (\<lambda>s. list_ex (\<lambda>h. getHours (timestamp h) < 8) (history s)) \<rparr>,
       \<lparr> achId = ''night_owl'', name = ''Night Owl'', achXp = 40,
         condition = (\<lambda>s. list_ex (\<lambda>h. getHours (timestamp h) \<ge> 22) (history s)) \<rparr>,
       \<lparr> achId = ''ocean_drinker'', name = ''Ocean Drinker'', achXp = 100,
         condition = (\<lambda>s. totalWater (stats s) \<ge> 10000) \<rparr>,
       \<lparr> achId = ''river_runner'', name = ''River Runner'', achXp = 200,
         condition = (\<lambda>s. totalWater (stats s) \<ge> 50000) \<rparr>,
       \<lparr> achId = ''waterfall_wonder'', name = ''Waterfall Wonder'', achXp = 400,
         condition = (\<lambda>s. totalWater (stats s) \<ge> 100000) \<rparr>,
       \<lparr> achId = ''level_5'', name = ''Rising Star'', achXp = 100,
         condition = (\<lambda>s. level s \<ge> 5) \<rparr>,
       \<lparr> achId = ''level_10'', name = ''Ultimate Hydrator'', achXp = 250,
         condition = (\<lambda>s. level s \<ge> 10) \<rparr>,
       \<lparr> achId = ''perfectionist'', name = ''Perfectionist'', achXp = 200,
         condition = (\<lambda>s. perfectDays (stats s) \<ge> 10) \<rparr> ]"

subsection \<open>XP, levels and achievements\<close>

text \<open>
  The loop of \<^verbatim>\<open>checkLevelUp\<close> (lines 616--621) walks the table from its last entry
  to its first and stops at the first entry whose threshold is reached;
  \<open>scanLevels\<close> is that loop over the entries in the order it visits them, with
  the initial value of \<^verbatim>\<open>newLevel\<close> as third argument.
\<close>

fun scanLevels :: "levelEntry list \<Rightarrow> int \<Rightarrow> int \<Rightarrow> int" where
  "scanLevels [] txp newLevel = newLevel"
| "scanLevels (e # es) txp newLevel =
     (if txp \<ge> xpRequired e then levelNo e else scanLevels es txp newLevel)"

definition computeLevel :: "int \<Rightarrow> int" where
  "computeLevel txp = scanLevels (rev levels) txp 1"

text \<open>
  The first \<^verbatim>\<open>forEach\<close> of \<^verbatim>\<open>checkAchievements\<close> (lines 653--660): in catalogue
  order, each achievement that is absent from the map and whose condition holds is
  entered in the map and appended to \<^verbatim>\<open>newAchievements\<close>.
\<close>

fun collectNew :: "instant \<Rightarrow> achievement list \<Rightarrow> state \<Rightarrow> achievement list
    \<Rightarrow> state \<times> achievement list" where
  "collectNew now [] s newAchievements = (s, newAchievements)"
| "collectNew now (a # as) s newAchievements =
     (if achievements s (achId a) = None \<and> condition a s
      then collectNew now as (s\<lparr>achievements := (achievements s)(achId a \<mapsto> now)\<rparr>)
             (newAchievements @ [a])
      else collectNew now as s newAchievements)"

text \<open>
  \<^verbatim>\<open>addXP\<close>, \<^verbatim>\<open>checkLevelUp\<close> and \<^verbatim>\<open>checkAchievements\<close> call one another (lines
  604--677); \<open>grantAll\<close> is the second \<^verbatim>\<open>forEach\<close> of \<^verbatim>\<open>checkAchievements\<close>, which
  adds the XP of every new achievement in turn. Rendering and \<^verbatim>\<open>saveState\<close> write
  the state out and read nothing back, so they do not appear here.
\<close>

function addXP :: "instant \<Rightarrow> int \<Rightarrow> state \<Rightarrow> state"
  and checkLevelUp :: "instant \<Rightarrow> state \<Rightarrow> state"
  and checkAchievements :: "instant \<Rightarrow> state \<Rightarrow> state"
  and grantAll :: "instant \<Rightarrow> achievement list \<Rightarrow> state \<Rightarrow> state" where
  "addXP now n s = checkLevelUp now (s\<lparr>xp := xp s + n, totalXp := totalXp s + n\<rparr>)"
| "checkLevelUp now s =
     (let currentLevel = level s; newLevel = computeLevel (totalXp s)
      in if newLevel > currentLevel
         then checkAchievements now (s\<lparr>level := newLevel\<rparr>)
         else s)"
| "checkAchievements now s =
     (case collectNew now achievementsDef s [] of
        (s', newAchievements) \<Rightarrow> grantAll now newAchievements s')"
| "grantAll now [] s = s"
| "grantAll now (a # as) s = grantAll now as (addXP now (achXp a) s)"
  by pat_completeness auto

subsection \<open>Logging water and reaching the goal\<close>

text \<open>\<^verbatim>\<open>handleGoalAchieved\<close> (lines 579--600); the celebration and the mascot are display.\<close>

definition handleGoalAchieved :: "instant \<Rightarrow> state \<Rightarrow> state" where
  "handleGoalAchieved now s =
     (let s1 = s\<lparr>streak := streak s + 1\<rparr>;
          s2 = (if streak s1 > bestStreak (stats s1)
                then s1\<lparr>stats := (stats s1)\<lparr>bestStreak := streak s1\<rparr>\<rparr>
                else s1);
          s3 = s2\<lparr>stats := (stats s2)\<lparr>perfectDays := perfectDays (stats s2) + 1\<rparr>\<rparr>;
          s4 = s3\<lparr>stats := (stats s3)\<lparr>totalDays := totalDays (stats s3) + 1\<rparr>\<rparr>
      in addXP now 100 s4)"

text \<open>
  \<^verbatim>\<open>addWater\<close> (lines 531--577). \<^verbatim>\<open>Math.floor(amount / 25)\<close> on an integer is
  \<open>div\<close> on \<open>int\<close>, which rounds towards minus infinity as \<^verbatim>\<open>Math.floor\<close> does.
  Sound, the XP float, the display and the mascot do not touch the state.
\<close>

definition addWater :: "int \<Rightarrow> instant \<Rightarrow> state \<Rightarrow> state" where
  "addWater amt now s =
     (let previousIntake = currentIntake s;
          s1 = s\<lparr>currentIntake := currentIntake s + amt\<rparr>;
          s2 = s1\<lparr>lastDrinkDate := Some (toDateString now)\<rparr>;
          s3 = s2\<lparr>history := history s2 @
                 [\<lparr>amount = amt, timestamp = now, date = toDateString now\<rparr>]\<rparr>;
          s4 = s3\<lparr>stats := (stats s3)\<lparr>glassesCount := glassesCount (stats s3) + 1\<rparr>\<rparr>;
          s5 = s4\<lparr>stats := (stats s4)\<lparr>totalWater := totalWater (stats s4) + amt\<rparr>\<rparr>;
          xpGained = amt div 25;
          s6 = addXP now xpGained s5;
          s7 = (if previousIntake < dailyGoal s6 \<and> currentIntake s6 \<ge> dailyGoal s6
                then handleGoalAchieved now s6 else s6)
      in checkAchievements now s7)"

subsection \<open>Day rollover\<close>

text \<open>
  \<^verbatim>\<open>getIntakeForDate\<close> (lines 370--375) sums the entries whose timestamp falls on the
  day of the given instant.
\<close>

definition getIntakeForDate :: "instant \<Rightarrow> state \<Rightarrow> int" where
  "getIntakeForDate d s =
     foldl (\<lambda>sum h. sum + amount h) 0
       (filter (\<lambda>h. toDateString (timestamp h) = toDateString d) (history s))"

text \<open>
  \<^verbatim>\<open>checkNewDay\<close> (lines 343--368). \<^verbatim>\<open>lastDate && lastDate !== today\<close>: the stored
  date is \<^verbatim>\<open>null\<close> or a date string, never the empty string, so it is truthy exactly
  when it is set. \<open>yesterday\<close> is the instant one day before \<open>now\<close>.
\<close>

definition checkNewDay :: "instant \<Rightarrow> state \<Rightarrow> state" where
  "checkNewDay now s =
     (let today = toDateString now in
      case lastDrinkDate s of
        None \<Rightarrow> s
      | Some lastDate \<Rightarrow>
          if lastDate \<noteq> today then
            (let yesterday = now - msPerDay;
                 s1 = (if lastDate = toDateString yesterday
                       then (let yesterdayIntake = getIntakeForDate yesterday s
                             in if yesterdayIntake < dailyGoal s then s\<lparr>streak := 0\<rparr> else s)
                       else s\<lparr>streak := 0\<rparr>)
             in s1\<lparr>currentIntake := 0\<rparr>)
          else s)"

subsection \<open>Settings and reminders\<close>

text \<open>
  \<^verbatim>\<open>saveSettings\<close> (lines 1109--1122). \<^verbatim>\<open>parseInt\<close> of the goal field is an
  integer or \<^verbatim>\<open>NaN\<close>; \<open>None\<close> stands for \<^verbatim>\<open>NaN\<close>, for which both comparisons
  are false.
\<close>

definition saveSettings :: "int option \<Rightarrow> bool \<Rightarrow> bool \<Rightarrow> state \<Rightarrow> state" where
  "saveSettings newGoal soundChecked notificationChecked s =
     (let s1 = (case newGoal of
                  None \<Rightarrow> s
                | Some g \<Rightarrow> if g \<ge> 500 \<and> g \<le> 5000 then s\<lparr>dailyGoal := g\<rparr> else s);
          s2 = s1\<lparr>settings := (settings s1)\<lparr>soundEnabled := soundChecked\<rparr>\<rparr>
      in s2\<lparr>settings := (settings s2)\<lparr>notificationsEnabled := notificationChecked\<rparr>\<rparr>)"

text \<open>
  \<^verbatim>\<open>enableReminders\<close> and \<^verbatim>\<open>disableReminders\<close> (lines 1353--1380); \<open>granted\<close> says
  whether the browser gave the notification permission.
\<close>

definition enableReminders :: "bool \<Rightarrow> int \<Rightarrow> string \<Rightarrow> string \<Rightarrow> state \<Rightarrow> state" where
  "enableReminders granted interval startT endT s =
     (if \<not> granted then s
      else s\<lparr>settings := (settings s)\<lparr>notificationsEnabled := True,
             reminderInterval := interval, startTime := startT, endTime := endT\<rparr>\<rparr>)"

definition disableReminders :: "state \<Rightarrow> state" where
  "disableReminders s = s\<lparr>settings := (settings s)\<lparr>notificationsEnabled := False\<rparr>\<rparr>"

subsection \<open>Sequences of operations\<close>

text \<open>
  The operations through which the running application changes its state, and a
  run of them from a given state. An amount that reaches \<^verbatim>\<open>addWater\<close> is positive:
  the quick-add buttons carry fixed positive amounts and the custom field is
  checked to lie in 1..2000 (lines 459--467).
\<close>

datatype op =
    AddWater int instant
  | CheckNewDay instant
  | SaveSettings "int option" bool bool
  | EnableReminders bool int string string
  | DisableReminders

fun applyOp :: "op \<Rightarrow> state \<Rightarrow> state" where
  "applyOp (AddWater amt now) s = addWater amt now s"
| "applyOp (CheckNewDay now) s = checkNewDay now s"
| "applyOp (SaveSettings g sound notif) s = saveSettings g sound notif s"
| "applyOp (EnableReminders granted interval startT endT) s =
     enableReminders granted interval startT endT s"
| "applyOp DisableReminders s = disableReminders s"


fun run :: "op list \<Rightarrow> state \<Rightarrow> state" where
  "run [] s = s"
| "run (c # cs) s = run cs (applyOp c s)"


section \<open>Cloud sync\<close>

text \<open>
  An awaited call either resolves with a value or rejects; a rejected promise under
  \<^verbatim>\<open>await\<close> is a thrown exception. \<open>Throws\<close> stands for every exception.
\<close>

datatype 'a outcome = Returns 'a | Throws

text \<open>
  What \<^verbatim>\<open>fetch\<close> resolves with: the status code and what \<^verbatim>\<open>res.json()\<close> gives (a
  document, JSON \<^verbatim>\<open>null\<close>, or a rejection when the body is not JSON).
  \<^verbatim>\<open>res.ok\<close> is true for the statuses 200 to 299.
\<close>

record response =
  status :: int
  body :: "state option outcome"

definition ok :: "response \<Rightarrow> bool" where
  "ok res = (200 \<le> status res \<and> status res \<le> 299)"

text \<open>\<^verbatim>\<open>!token\<close>: the token is \<^verbatim>\<open>null\<close> or the empty string.\<close>

fun noToken :: "string option \<Rightarrow> bool" where
  "noToken None = True"
| "noToken (Some t) = (t = [])"

text \<open>
  \<^verbatim>\<open>loadFromCloud\<close> (lines 123--143): \<open>loadFromCloudTry\<close> is the body of its
  \<^verbatim>\<open>try\<close>, given what \<^verbatim>\<open>getToken\<close> and \<^verbatim>\<open>fetch\<close> resolve with, and
  \<open>loadFromCloud\<close> adds the \<^verbatim>\<open>catch\<close>.
\<close>

definition loadFromCloudTry :: "string option outcome \<Rightarrow> response outcome
    \<Rightarrow> state option outcome" where
  "loadFromCloudTry getToken fetch =
     (case getToken of
        Throws \<Rightarrow> Throws
      | Returns token \<Rightarrow>
          if noToken token then Returns None
          else (case fetch of
                  Throws \<Rightarrow> Throws
                | Returns res \<Rightarrow>
                    if status res = 404 then Returns None
                    else if \<not> ok res then Throws
                    else body res))"

definition loadFromCloud :: "string option outcome \<Rightarrow> response outcome
    \<Rightarrow> state option outcome" where
  "loadFromCloud getToken fetch =
     (case loadFromCloudTry getToken fetch of
        Throws \<Rightarrow> Returns None
      | Returns r \<Rightarrow> Returns r)"

text \<open>
  \<^verbatim>\<open>saveToCloud\<close> (lines 145--167) and \<^verbatim>\<open>deleteFromCloud\<close> (lines 169--186), in the
  same way. The flag \<^verbatim>\<open>isSyncing\<close> is written and never read.
\<close>

definition saveToCloudTry :: "string option outcome \<Rightarrow> response outcome \<Rightarrow> bool outcome" where
  "saveToCloudTry getToken fetch =
     (case getToken of
        Throws \<Rightarrow> Throws
      | Returns token \<Rightarrow>
          if noToken token then Returns False
          else (case fetch of
                  Throws \<Rightarrow> Throws
                | Returns res \<Rightarrow> Returns (ok res)))"

definition saveToCloud :: "string option outcome \<Rightarrow> response outcome \<Rightarrow> bool outcome" where
  "saveToCloud getToken fetch =
     (case saveToCloudTry getToken fetch of
        Throws \<Rightarrow> Returns False
      | Returns b \<Rightarrow> Returns b)"

definition deleteFromCloudTry :: "string option outcome \<Rightarrow> response outcome \<Rightarrow> bool outcome" where
  "deleteFromCloudTry getToken fetch =
     (case getToken of
        Throws \<Rightarrow> Throws
      | Returns token \<Rightarrow>
          if noToken token then Returns False
          else (case fetch of
                  Throws \<Rightarrow> Throws
                | Returns res \<Rightarrow> Returns (ok res)))"

definition deleteFromCloud :: "string option outcome \<Rightarrow> response outcome \<Rightarrow> bool outcome" where
  "deleteFromCloud getToken fetch =
     (case deleteFromCloudTry getToken fetch of
        Throws \<Rightarrow> Returns False
      | Returns b \<Rightarrow> Returns b)"

subsection \<open>Merging at sign-in\<close>

text \<open>
  Modelled from the spec: the remote state resource of section 6, a service outside
  the repository. It holds at most one state document; \<^verbatim>\<open>GET /state\<close> answers 200
  with the document or 404 when there is none, \<^verbatim>\<open>PUT /state\<close> stores the body and
  answers 200. When it is not reachable a request rejects with a network error and
  changes nothing.
\<close>

record server =
  reachable :: bool
  document :: "state option"

definition fetchGet :: "server \<Rightarrow> response outcome" where
  "fetchGet srv =
     (if \<not> reachable srv then Throws
      else (case document srv of
              None \<Rightarrow> Returns \<lparr>status = 404, body = Throws\<rparr>
            | Some d \<Rightarrow> Returns \<lparr>status = 200, body = Returns (Some d)\<rparr>))"

definition fetchPut :: "state \<Rightarrow> server \<Rightarrow> response outcome \<times> server" where
  "fetchPut st srv =
     (if \<not> reachable srv then (Throws, srv)
      else (Returns \<lparr>status = 200, body = Returns None\<rparr>, srv\<lparr>document := Some st\<rparr>))"

text \<open>
  \<^verbatim>\<open>saveToCloud(state)\<close> against that resource: the request is sent only when there
  is a token (line 149 returns before \<^verbatim>\<open>fetch\<close> otherwise).
\<close>

definition sendPut :: "string option outcome \<Rightarrow> state \<Rightarrow> server \<Rightarrow> bool outcome \<times> server" where
  "sendPut getToken st srv =
     (case getToken of
        Throws \<Rightarrow> (saveToCloud getToken Throws, srv)
      | Returns token \<Rightarrow>
          if noToken token then (saveToCloud getToken Throws, srv)
          else (case fetchPut st srv of (res, srv') \<Rightarrow> (saveToCloud getToken res, srv')))"

text \<open>
  The application around the state: the fields of \<^verbatim>\<open>HydraTrack\<close> that the sign-in
  code reads or writes, and the document kept under the key \<^verbatim>\<open>hydratrack_state\<close> of
  the browser's local storage.
\<close>

record app =
  appState :: state
  isAuthenticated :: bool
  userEmail :: "string option"
  localStorage :: "state option"

text \<open>
  \<^verbatim>\<open>{ ...this.state, ...cloudState }\<close>: every top-level key of the cloud document
  overrides the local one. A cloud document is a whole state (it was written by
  \<^verbatim>\<open>saveToCloud\<close> from \<^verbatim>\<open>this.state\<close>), so the result is the cloud document. On a
  number \<open>x\<close>, \<^verbatim>\<open>x || 0\<close> is \<open>x\<close>.
\<close>

definition spread :: "state \<Rightarrow> state \<Rightarrow> state" where
  "spread localState cloudState = cloudState"

definition saveStateLocal :: "app \<Rightarrow> app" where
  "saveStateLocal a = a\<lparr>localStorage := Some (appState a)\<rparr>"

text \<open>
  \<^verbatim>\<open>handleSignIn\<close> (lines 1278--1316), given the trimmed e-mail, the password, what
  \<^verbatim>\<open>authManager.signIn\<close> resolves with (e-mail and token, or a rejection) and what
  \<^verbatim>\<open>getToken\<close> resolves with afterwards.
\<close>

definition handleSignIn :: "string \<Rightarrow> string \<Rightarrow> (string \<times> string) outcome
    \<Rightarrow> string option outcome \<Rightarrow> app \<times> server \<Rightarrow> app \<times> server" where
  "handleSignIn email password signIn getToken w =
     (case w of (a, srv) \<Rightarrow>
        if email = [] \<or> password = [] then w
        else (case signIn of
                Throws \<Rightarrow> w
              | Returns user \<Rightarrow>
                  (let a1 = a\<lparr>isAuthenticated := True, userEmail := Some (fst user)\<rparr> in
                   case loadFromCloud getToken (fetchGet srv) of
                     Throws \<Rightarrow> (a1, srv)
                   | Returns cloudState \<Rightarrow>
                       (let a2 = (case cloudState of
                                    None \<Rightarrow> a1
                                  | Some c \<Rightarrow>
                                      if totalXp c > totalXp (appState a1) \<or>
                                         totalWater (stats c) > totalWater (stats (appState a1))
                                      then a1\<lparr>appState := spread (appState a1) c\<rparr>
                                      else a1)
                        in case sendPut getToken (appState a2) srv of
                             (Throws, srv') \<Rightarrow> (a2, srv')
                           | (Returns saved, srv') \<Rightarrow> (saveStateLocal a2, srv')))))"

text \<open>
  \<^verbatim>\<open>checkExistingSession\<close> (lines 1178--1203), given what \<^verbatim>\<open>getCurrentUser\<close> and
  \<^verbatim>\<open>getToken\<close> resolve with.
\<close>

definition checkExistingSession :: "(string \<times> string) option outcome
    \<Rightarrow> string option outcome \<Rightarrow> app \<times> server \<Rightarrow> app \<times> server" where
  "checkExistingSession getCurrentUser getToken w =
     (case w of (a, srv) \<Rightarrow>
        (case getCurrentUser of
           Throws \<Rightarrow> w
         | Returns None \<Rightarrow> w
         | Returns (Some user) \<Rightarrow>
             (let a1 = a\<lparr>isAuthenticated := True, userEmail := Some (fst user)\<rparr> in
              case loadFromCloud getToken (fetchGet srv) of
                Throws \<Rightarrow> (a1, srv)
              | Returns None \<Rightarrow> (a1, srv)
              | Returns (Some c) \<Rightarrow>
                  if totalXp c > totalXp (appState a1) \<or>
                     totalWater (stats c) > totalWater (stats (appState a1))
                  then (saveStateLocal (a1\<lparr>appState := spread (appState a1) c\<rparr>), srv)
                  else (a1, srv))))"

section \<open>Auxiliary notions\<close>

text \<open>
  The test of the first loop of \<^verbatim>\<open>checkAchievements\<close> (line 654): the achievement
  is not in the map and its condition holds.
\<close>

definition qualifies :: "state \<Rightarrow> achievement \<Rightarrow> bool" where
  "qualifies s a = (achievements s (achId a) = None \<and> condition a s)"

text \<open>
  The test of \<^verbatim>\<open>addWater\<close> (line 565), on the state before the call: the intake was
  below the goal and the logged amount brings it to the goal or beyond.
\<close>

definition crossing :: "state \<Rightarrow> int \<Rightarrow> bool" where
  "crossing s amt = (currentIntake s < dailyGoal s \<and> currentIntake s + amt \<ge> dailyGoal s)"

text \<open>The fields that the XP and achievement cascade never assigns.\<close>

definition sameCore :: "state \<Rightarrow> state \<Rightarrow> bool" where
  "sameCore s s' =
     (currentIntake s' = currentIntake s \<and> dailyGoal s' = dailyGoal s \<and> streak s' = streak s \<and>
      lastDrinkDate s' = lastDrinkDate s \<and> history s' = history s \<and>
      settings s' = settings s \<and> stats s' = stats s)"

text \<open>
  Three invariants of the state: the best streak is not below the streak (and not
  negative); the two day counters agree; the total XP is not negative and the stored
  level is the one the table scan gives for it.
\<close>

definition streakInv :: "state \<Rightarrow> bool" where
  "streakInv s = (streak s \<le> bestStreak (stats s) \<and> 0 \<le> bestStreak (stats s))"

definition daysInv :: "state \<Rightarrow> bool" where
  "daysInv s = (totalDays (stats s) = perfectDays (stats s))"




section \<open>States used as examples\<close>



text \<open>
  A local state with more XP than the cloud copy and the same total water; the
  application at start-up, with that local state in memory and in local storage;
  the remote resource, reachable and holding the cloud copy.
\<close>

definition localAhead :: state where
  "localAhead = initialState\<lparr>xp := 500, totalXp := 500, level := 4\<rparr>"

definition cloudBehind :: state where
  "cloudBehind = initialState\<lparr>xp := 300, totalXp := 300, level := 3\<rparr>"

definition resumedApp :: app where
  "resumedApp = \<lparr>appState = localAhead, isAuthenticated = False, userEmail = None,
     localStorage = Some localAhead\<rparr>"

definition cloudServer :: server where
  "cloudServer = \<lparr>reachable = True, document = Some cloudBehind\<rparr>"

section \<open>Termination of the XP and achievement cascade\<close>

text \<open>
  A level-up runs the achievement pass, whose rewards may give further level-ups.
  The cascade ends because every level-up raises the level to a value of the table,
  at most 10: \<open>room\<close> is the number of level-ups still possible.
\<close>

definition room :: "state \<Rightarrow> nat" where
  "room s = nat (10 - level s)"

definition callRank :: "(instant \<times> int \<times> state + instant \<times> state) +
    (instant \<times> state + instant \<times> achievement list \<times> state) \<Rightarrow> nat \<times> nat" where
  "callRank c =
     (case c of
        Inl (Inl (now, n, s)) \<Rightarrow> (room s, 1)
      | Inl (Inr (now, s)) \<Rightarrow> (room s, 0)
      | Inr (Inl (now, s)) \<Rightarrow> (room s, 2 * length achievementsDef + 3)
      | Inr (Inr (now, as, s)) \<Rightarrow> (room s, 2 * length as + 2))"

lemma computeLevel_bounds: "1 \<le> computeLevel x \<and> computeLevel x \<le> 10"
  by (simp add: computeLevel_def levels_def)

lemma collectNew_level: "level (fst (collectNew now as s acc)) = level s"
  by (induction as arbitrary: s acc) simp_all

lemma collectNew_length: "length (snd (collectNew now as s acc)) \<le> length acc + length as"
proof (induction as arbitrary: s acc)
  case Nil
  show ?case by simp
next
  case (Cons a as)
  have "length (snd (collectNew now as (s\<lparr>achievements := (achievements s)(achId a \<mapsto> now)\<rparr>)
      (acc @ [a]))) \<le> length (acc @ [a]) + length as"
    by (rule Cons.IH)
  moreover have "length (snd (collectNew now as s acc)) \<le> length acc + length as"
    by (rule Cons.IH)
  ultimately show ?case by simp
qed

lemma room_levelUp:
  "level s < computeLevel x \<Longrightarrow> room (s\<lparr>level := computeLevel x\<rparr>) < room s"
  using computeLevel_bounds [of x] by (simp add: room_def)

lemma room_partial:
  "addXP_checkLevelUp_checkAchievements_grantAll_dom (Inl (Inl (now, n, s))) \<Longrightarrow>
     room (addXP now n s) \<le> room s"
  "addXP_checkLevelUp_checkAchievements_grantAll_dom (Inl (Inr (now, s))) \<Longrightarrow>
     room (checkLevelUp now s) \<le> room s"
  "addXP_checkLevelUp_checkAchievements_grantAll_dom (Inr (Inl (now, s))) \<Longrightarrow>
     room (checkAchievements now s) \<le> room s"
  "addXP_checkLevelUp_checkAchievements_grantAll_dom (Inr (Inr (now, as, s))) \<Longrightarrow>
     room (grantAll now as s) \<le> room s"
proof (induction now n s and now s and now s and now as s
    rule: addXP_checkLevelUp_checkAchievements_grantAll.pinduct)
  case (1 now n s)
  then show ?case by (simp add: addXP.psimps room_def)
next
  case (2 now s)
  show ?case
  proof (cases "level s < computeLevel (totalXp s)")
    case True
    from 2(2) [OF refl refl True] room_levelUp [OF True] 2(1) True
    show ?thesis by (simp add: checkLevelUp.psimps)
  next
    case False
    with 2(1) show ?thesis by (simp add: checkLevelUp.psimps)
  qed
next
  case (3 now s)
  obtain x y where xy: "collectNew now achievementsDef s [] = (x, y)"
    by (cases "collectNew now achievementsDef s []")
  from collectNew_level [of now achievementsDef s "[]"] xy have "room x = room s"
    by (simp add: room_def)
  with 3(2) [OF xy [symmetric]] 3(1) xy show ?case
    by (simp add: checkAchievements.psimps)
next
  case (4 now s)
  then show ?case by (simp add: grantAll.psimps)
next
  case (5 now a as s)
  then show ?case by (simp add: grantAll.psimps)
qed

termination addXP
proof (relation "inv_image (less_than <*lex*> less_than) callRank")
  show "wf (inv_image (less_than <*lex*> less_than) callRank)"
    by (intro wf_inv_image wf_lex_prod wf_less_than)
next
  fix now :: instant and n :: int and s :: state
  show "(Inl (Inr (now, s\<lparr>xp := xp s + n, totalXp := totalXp s + n\<rparr>)), Inl (Inl (now, n, s)))
      \<in> inv_image (less_than <*lex*> less_than) callRank"
    by (simp add: callRank_def room_def)
next
  fix now :: instant and s :: state and x xa
  assume "x = level s" "xa = computeLevel (totalXp s)" "x < xa"
  then show "(Inr (Inl (now, s\<lparr>level := xa\<rparr>)), Inl (Inr (now, s)))
      \<in> inv_image (less_than <*lex*> less_than) callRank"
    using room_levelUp [of s "totalXp s"] by (simp add: callRank_def)
next
  fix now :: instant and s x :: state and y :: "achievement list"
  assume xy: "(x, y) = collectNew now achievementsDef s []"
  have "room x = room s"
    using collectNew_level [of now achievementsDef s "[]"] xy [symmetric] by (simp add: room_def)
  moreover have "length y \<le> length achievementsDef"
    using collectNew_length [of now achievementsDef s "[]"] xy [symmetric] by simp
  ultimately show "(Inr (Inr (now, y, x)), Inr (Inl (now, s)))
      \<in> inv_image (less_than <*lex*> less_than) callRank"
    by (simp add: callRank_def)
next
  fix now :: instant and a :: achievement and as :: "achievement list" and s :: state
  show "(Inl (Inl (now, achXp a, s)), Inr (Inr (now, a # as, s)))
      \<in> inv_image (less_than <*lex*> less_than) callRank"
    by (simp add: callRank_def)
next
  fix now :: instant and a :: achievement and as :: "achievement list" and s :: state
  assume "addXP_checkLevelUp_checkAchievements_grantAll_dom (Inl (Inl (now, achXp a, s)))"
  then have "room (addXP now (achXp a) s) \<le> room s"
    by (rule room_partial(1))
  then show "(Inr (Inr (now, as, addXP now (achXp a) s)), Inr (Inr (now, a # as, s)))
      \<in> inv_image (less_than <*lex*> less_than) callRank"
    by (auto simp: callRank_def)
qed

declare addXP.simps [simp del] checkLevelUp.simps [simp del] checkAchievements.simps [simp del]

section \<open>Day rollover\<close>



text \<open>
  Claim C6. For every state and every instant, \<^verbatim>\<open>checkNewDay\<close> leaves the best
  streak, the history and the achievements as they are, and the state it returns
  differs from the given one in the fields \<^verbatim>\<open>streak\<close> and \<^verbatim>\<open>currentIntake\<close> at most.
\<close>

theorem checkNewDay_frame:
  "bestStreak (stats (checkNewDay now s)) = bestStreak (stats s) \<and>
   history (checkNewDay now s) = history s \<and>
   achievements (checkNewDay now s) = achievements s \<and>
   checkNewDay now s =
     s\<lparr>streak := streak (checkNewDay now s), currentIntake := currentIntake (checkNewDay now s)\<rparr>"
proof -
  have "checkNewDay now s =
     s\<lparr>streak := streak (checkNewDay now s), currentIntake := currentIntake (checkNewDay now s)\<rparr>"
    by (simp add: checkNewDay_def Let_def split: option.splits)
  moreover have "bestStreak (stats (checkNewDay now s)) = bestStreak (stats s)"
    "history (checkNewDay now s) = history s" "achievements (checkNewDay now s) = achievements s"
    by (simp_all add: checkNewDay_def Let_def split: option.splits)
  ultimately show ?thesis by blast
qed

section \<open>Settings\<close>

text \<open>
  Claim C8, as the specification states it: after \<^verbatim>\<open>saveSettings\<close> the stored
  daily goal is the input clamped into 500..5000. It fails: from the initial state
  (goal 2000) the input 6000 leaves the goal at 2000, where the clamp gives 5000.
\<close>

theorem saveSettings_clamp_counterexample:
  "dailyGoal (saveSettings (Some 6000) True False initialState) = 2000 \<and>
   dailyGoal (saveSettings (Some 6000) True False initialState) \<noteq> max 500 (min 5000 6000)"
  by (simp add: saveSettings_def initialState_def)

text \<open>
  Claim C8, amended. \<^verbatim>\<open>saveSettings\<close> stores the input as the daily goal when it
  lies in 500..5000; for any other input, and for a field that does not parse as a
  number, the stored daily goal stays as it was.
\<close>

theorem saveSettings_goal:
  "dailyGoal (saveSettings g sound notif s) =
     (case g of
        None \<Rightarrow> dailyGoal s
      | Some v \<Rightarrow> if 500 \<le> v \<and> v \<le> 5000 then v else dailyGoal s)"
  by (simp add: saveSettings_def Let_def split: option.splits)

section \<open>The remote store never throws\<close>

text \<open>
  Claim C7. Whatever \<^verbatim>\<open>getToken\<close> and \<^verbatim>\<open>fetch\<close> do, \<^verbatim>\<open>loadFromCloud\<close>,
  \<^verbatim>\<open>saveToCloud\<close> and \<^verbatim>\<open>deleteFromCloud\<close> return a value and do not throw.
  \<^verbatim>\<open>loadFromCloud\<close> returns \<^verbatim>\<open>null\<close> when there is no token, when the answer is
  404, and on every failure (a rejected token or request, a status outside 200..299,
  a body that does not parse); \<^verbatim>\<open>saveToCloud\<close> and \<^verbatim>\<open>deleteFromCloud\<close> return
  \<^verbatim>\<open>false\<close> on every failure.
\<close>

theorem remote_operations_total:
  "(\<exists>r. loadFromCloud getToken fetch = Returns r) \<and>
   (\<forall>token. getToken = Returns token \<and> noToken token \<longrightarrow>
      loadFromCloud getToken fetch = Returns None) \<and>
   (\<forall>res. fetch = Returns res \<and> status res = 404 \<longrightarrow>
      loadFromCloud getToken fetch = Returns None) \<and>
   (getToken = Throws \<or> fetch = Throws \<or>
    (\<exists>res. fetch = Returns res \<and> (\<not> ok res \<or> body res = Throws)) \<longrightarrow>
      loadFromCloud getToken fetch = Returns None) \<and>
   (\<exists>b. saveToCloud getToken fetch = Returns b) \<and>
   (getToken = Throws \<or> (\<exists>token. getToken = Returns token \<and> noToken token) \<or>
    fetch = Throws \<or> (\<exists>res. fetch = Returns res \<and> \<not> ok res) \<longrightarrow>
      saveToCloud getToken fetch = Returns False) \<and>
   (\<exists>b. deleteFromCloud getToken fetch = Returns b) \<and>
   (getToken = Throws \<or> (\<exists>token. getToken = Returns token \<and> noToken token) \<or>
    fetch = Throws \<or> (\<exists>res. fetch = Returns res \<and> \<not> ok res) \<longrightarrow>
      deleteFromCloud getToken fetch = Returns False)"
proof -
  have l: "\<exists>r. loadFromCloud getToken fetch = Returns r"
    by (cases "loadFromCloudTry getToken fetch") (simp_all add: loadFromCloud_def)
  have l1: "\<forall>token. getToken = Returns token \<and> noToken token \<longrightarrow>
      loadFromCloud getToken fetch = Returns None"
    by (simp add: loadFromCloud_def loadFromCloudTry_def)
  have l2: "\<forall>res. fetch = Returns res \<and> status res = 404 \<longrightarrow>
      loadFromCloud getToken fetch = Returns None"
    by (simp add: loadFromCloud_def loadFromCloudTry_def split: outcome.splits)
  have l3: "getToken = Throws \<or> fetch = Throws \<or>
    (\<exists>res. fetch = Returns res \<and> (\<not> ok res \<or> body res = Throws)) \<longrightarrow>
      loadFromCloud getToken fetch = Returns None"
    by (auto simp: loadFromCloud_def loadFromCloudTry_def split: outcome.splits)
  have s: "\<exists>b. saveToCloud getToken fetch = Returns b"
    by (cases "saveToCloudTry getToken fetch") (auto simp: saveToCloud_def)
  have s1: "getToken = Throws \<or> (\<exists>token. getToken = Returns token \<and> noToken token) \<or>
    fetch = Throws \<or> (\<exists>res. fetch = Returns res \<and> \<not> ok res) \<longrightarrow>
      saveToCloud getToken fetch = Returns False"
    by (auto simp: saveToCloud_def saveToCloudTry_def split: outcome.splits)
  have d: "\<exists>b. deleteFromCloud getToken fetch = Returns b"
    by (cases "deleteFromCloudTry getToken fetch") (auto simp: deleteFromCloud_def)
  have d1: "getToken = Throws \<or> (\<exists>token. getToken = Returns token \<and> noToken token) \<or>
    fetch = Throws \<or> (\<exists>res. fetch = Returns res \<and> \<not> ok res) \<longrightarrow>
      deleteFromCloud getToken fetch = Returns False"
    by (auto simp: deleteFromCloud_def deleteFromCloudTry_def split: outcome.splits)
  from l l1 l2 l3 s s1 d d1 show ?thesis by blast
qed

theorem remote_operations_total_witness:
  "noToken None \<and>
   loadFromCloud (Returns None) (Returns \<lparr>status = 200, body = Returns (Some initialState)\<rparr>)
     = Returns None \<and>
   status \<lparr>status = 404, body = Throws\<rparr> = 404 \<and>
   loadFromCloud (Returns (Some ''tok'')) (Returns \<lparr>status = 404, body = Throws\<rparr>) = Returns None \<and>
   \<not> ok \<lparr>status = 500, body = Throws\<rparr> \<and>
   loadFromCloud (Returns (Some ''tok'')) (Returns \<lparr>status = 500, body = Throws\<rparr>) = Returns None \<and>
   loadFromCloud (Returns (Some ''tok'')) Throws = Returns None \<and>
   saveToCloud (Returns (Some ''tok'')) Throws = Returns False \<and>
   saveToCloud (Returns (Some ''tok'')) (Returns \<lparr>status = 500, body = Throws\<rparr>) = Returns False \<and>
   deleteFromCloud (Returns None) Throws = Returns False \<and>
   deleteFromCloud Throws (Returns \<lparr>status = 200, body = Throws\<rparr>) = Returns False"
  using remote_operations_total [of "Returns None"
      "Returns \<lparr>status = 200, body = Returns (Some initialState)\<rparr>"]
    remote_operations_total [of "Returns (Some ''tok'')" "Returns \<lparr>status = 404, body = Throws\<rparr>"]
    remote_operations_total [of "Returns (Some ''tok'')" "Returns \<lparr>status = 500, body = Throws\<rparr>"]
    remote_operations_total [of "Returns (Some ''tok'')" Throws]
    remote_operations_total [of "Returns None" Throws]
    remote_operations_total [of Throws "Returns \<lparr>status = 200, body = Throws\<rparr>"]
  by (simp add: ok_def)

section \<open>The achievement pass\<close>

lemma condition_achievements:
  "a \<in> set achievementsDef \<Longrightarrow> condition a (s\<lparr>achievements := m\<rparr>) = condition a s"
  by (auto simp: achievementsDef_def)

lemma condition_xp:
  "a \<in> set achievementsDef \<Longrightarrow> condition a (s\<lparr>xp := x, totalXp := t\<rparr>) = condition a s"
  by (auto simp: achievementsDef_def)

lemma distinct_ids: "distinct (map achId achievementsDef)"
  by (simp add: achievementsDef_def)


lemma collectNew_Cons:
  "collectNew now (a # as) s acc =
     (if qualifies s a
      then collectNew now as (s\<lparr>achievements := (achievements s)(achId a \<mapsto> now)\<rparr>) (acc @ [a])
      else collectNew now as s acc)"
  by (simp add: qualifies_def)

lemma collectNew_eq:
  assumes "distinct (map achId as)" and "set as \<subseteq> set achievementsDef"
  shows "collectNew now as s acc =
     (s\<lparr>achievements := (\<lambda>i. if i \<in> achId ` {a \<in> set as. qualifies s a} then Some now
                               else achievements s i)\<rparr>,
      acc @ filter (qualifies s) as)"
  using assms
proof (induction as arbitrary: s acc)
  case Nil
  show ?case by simp
next
  case (Cons a as)
  have d: "distinct (map achId as)" and sub: "set as \<subseteq> set achievementsDef"
    and a: "a \<in> set achievementsDef" and na: "achId a \<notin> achId ` set as"
    using Cons.prems by auto
  show ?case
  proof (cases "qualifies s a")
    case False
    then have "collectNew now (a # as) s acc = collectNew now as s acc"
      by (simp only: collectNew_Cons if_False)
    also have "\<dots> = (s\<lparr>achievements := (\<lambda>i. if i \<in> achId ` {a \<in> set as. qualifies s a} then Some now
                               else achievements s i)\<rparr>, acc @ filter (qualifies s) as)"
      by (rule Cons.IH [OF d sub])
    also have "{b \<in> set as. qualifies s b} = {b \<in> set (a # as). qualifies s b}"
      using False by auto
    finally show ?thesis using False by simp
  next
    case True
    let ?s1 = "s\<lparr>achievements := (achievements s)(achId a \<mapsto> now)\<rparr>"
    have q: "qualifies ?s1 b = qualifies s b" if b: "b \<in> set as" for b
    proof -
      from b na have "achId b \<noteq> achId a" by (metis image_eqI)
      moreover from b sub have "condition b ?s1 = condition b s"
        by (intro condition_achievements) auto
      ultimately show ?thesis by (simp add: qualifies_def)
    qed
    have f: "filter (qualifies ?s1) as = filter (qualifies s) as"
      using q by (auto intro: filter_cong)
    have st: "{b \<in> set as. qualifies ?s1 b} = {b \<in> set as. qualifies s b}"
      using q by auto
    have m: "(\<lambda>i. if i \<in> achId ` {b \<in> set as. qualifies s b} then Some now
                 else ((achievements s)(achId a \<mapsto> now)) i) =
             (\<lambda>i. if i \<in> achId ` {b \<in> set (a # as). qualifies s b} then Some now
                 else achievements s i)"
      using True by (auto simp: fun_eq_iff)
    have "collectNew now (a # as) s acc = collectNew now as ?s1 (acc @ [a])"
      using True by (simp only: collectNew_Cons if_True)
    also have "\<dots> = (?s1\<lparr>achievements := (\<lambda>i. if i \<in> achId ` {b \<in> set as. qualifies ?s1 b}
          then Some now else achievements ?s1 i)\<rparr>, (acc @ [a]) @ filter (qualifies ?s1) as)"
      by (rule Cons.IH [OF d sub])
    also have "\<dots> = (s\<lparr>achievements := (\<lambda>i. if i \<in> achId ` {b \<in> set (a # as). qualifies s b}
          then Some now else achievements s i)\<rparr>, acc @ filter (qualifies s) (a # as))"
    proof -
      have "achievements ?s1 = (achievements s)(achId a \<mapsto> now)" by simp
      then have "(\<lambda>i. if i \<in> achId ` {b \<in> set as. qualifies s b} then Some now
                 else achievements ?s1 i) =
             (\<lambda>i. if i \<in> achId ` {b \<in> set (a # as). qualifies s b} then Some now
                 else achievements s i)"
        using m by metis
      then show ?thesis using True by (simp only: f st) simp
    qed
    finally show ?thesis .
  qed
qed

lemma collectNew_fst:
  "\<exists>m. fst (collectNew now achievementsDef s []) = s\<lparr>achievements := m\<rparr>"
  by (subst collectNew_eq [OF distinct_ids subset_refl]) (simp only: fst_conv, blast)

lemma cascade_rel:
  assumes Rrefl: "\<And>s. R s s" and Rtrans: "\<And>a b c. R a b \<Longrightarrow> R b c \<Longrightarrow> R a c"
    and xpStep: "\<And>s x t. R s (s\<lparr>xp := x, totalXp := t\<rparr>)"
    and lvStep: "\<And>s. level s < computeLevel (totalXp s) \<Longrightarrow>
        R s (s\<lparr>level := computeLevel (totalXp s)\<rparr>)"
    and achStep: "\<And>s m. R s (s\<lparr>achievements := m\<rparr>)"
  shows "R s (addXP now n s)" and "R s (checkLevelUp now s)"
    and "R s (checkAchievements now s)" and "R s (grantAll now as s)"
proof (induction now n s and now s and now s and now as s
    rule: addXP_checkLevelUp_checkAchievements_grantAll.induct)
  case (1 now n s)
  have "R s (s\<lparr>xp := xp s + n, totalXp := totalXp s + n\<rparr>)" by (rule xpStep)
  from Rtrans [OF this 1] show ?case by (simp add: addXP.simps)
next
  case (2 now s)
  show ?case
  proof (cases "level s < computeLevel (totalXp s)")
    case True
    have "R s (s\<lparr>level := computeLevel (totalXp s)\<rparr>)" by (rule lvStep [OF True])
    from Rtrans [OF this 2 [OF HOL.refl HOL.refl True]] True show ?thesis
      by (simp add: checkLevelUp.simps)
  next
    case False
    then show ?thesis by (simp add: checkLevelUp.simps Rrefl)
  qed
next
  case (3 now s)
  obtain x y where xy: "collectNew now achievementsDef s [] = (x, y)"
    by (cases "collectNew now achievementsDef s []")
  from collectNew_fst [of now s] xy obtain m where "x = s\<lparr>achievements := m\<rparr>" by auto
  then have "R s x" by (simp add: achStep)
  from Rtrans [OF this 3 [OF xy [symmetric]]] xy show ?case
    by (simp add: checkAchievements.simps)
next
  case (4 now s)
  show ?case by (simp add: Rrefl)
next
  case (5 now a as s)
  from Rtrans [OF 5(1) 5(2)] show ?case by simp
qed

lemma cascade_sameCore:
  "sameCore s (addXP now n s)" "sameCore s (checkLevelUp now s)"
  "sameCore s (checkAchievements now s)" "sameCore s (grantAll now as s)"
proof -
  have r: "\<And>s. sameCore s s"
    and t: "\<And>a b c. sameCore a b \<Longrightarrow> sameCore b c \<Longrightarrow> sameCore a c"
    and x: "\<And>s x t. sameCore s (s\<lparr>xp := x, totalXp := t\<rparr>)"
    and l: "\<And>s. level s < computeLevel (totalXp s) \<Longrightarrow>
        sameCore s (s\<lparr>level := computeLevel (totalXp s)\<rparr>)"
    and a: "\<And>s m. sameCore s (s\<lparr>achievements := m\<rparr>)"
    by (simp_all add: sameCore_def)
  note R = cascade_rel [where R = sameCore, OF r t x l a]
  show "sameCore s (addXP now n s)" by (rule R(1))
  show "sameCore s (checkLevelUp now s)" by (rule R(2))
  show "sameCore s (checkAchievements now s)" by (rule R(3))
  show "sameCore s (grantAll now as s)" by (rule R(4))
qed



lemma collectNew_achievements:
  "achievements (fst (collectNew now achievementsDef s [])) =
     (\<lambda>i. if i \<in> achId ` {a \<in> set achievementsDef. qualifies s a} then Some now
          else achievements s i)"
  by (simp add: collectNew_eq [OF distinct_ids subset_refl])

lemma achId_inj: "inj_on achId (set achievementsDef)"
  using distinct_ids by (simp add: distinct_map)

lemma unlocked_after_collect:
  assumes "a \<in> set achievementsDef"
  shows "(achievements (fst (collectNew now achievementsDef s [])) (achId a) \<noteq> None) =
     (achievements s (achId a) \<noteq> None \<or> qualifies s a)"
proof -
  have "(achId a \<in> achId ` {b \<in> set achievementsDef. qualifies s b}) = qualifies s a"
    using assms achId_inj by (auto dest: inj_onD)
  then show ?thesis by (auto simp: collectNew_achievements)
qed

lemma qualifies_after_collect:
  assumes "a \<in> set achievementsDef"
  shows "\<not> qualifies (fst (collectNew now achievementsDef s [])) a"
proof -
  obtain m where m: "fst (collectNew now achievementsDef s []) = s\<lparr>achievements := m\<rparr>"
    using collectNew_fst by blast
  have c: "condition a (fst (collectNew now achievementsDef s [])) = condition a s"
    by (simp only: m condition_achievements [OF assms])
  show ?thesis
    using unlocked_after_collect [OF assms, of now s] c by (auto simp: qualifies_def)
qed

lemma collectNew_settled:
  assumes "\<forall>a\<in>set achievementsDef. \<not> qualifies s a"
  shows "collectNew now achievementsDef s [] = (s, [])"
proof -
  have f: "filter (qualifies s) achievementsDef = []"
    using assms by (simp add: filter_empty_conv)
  have e: "{a \<in> set achievementsDef. qualifies s a} = {}"
    using assms by auto
  have m: "(\<lambda>i. if i \<in> achId ` {a \<in> set achievementsDef. qualifies s a} then Some now
       else achievements s i) = achievements s"
    by (simp only: e image_empty empty_iff if_False)
  have "collectNew now achievementsDef s [] = (s\<lparr>achievements := achievements s\<rparr>, [] @ [])"
    by (simp only: collectNew_eq [OF distinct_ids subset_refl] m f)
  then show ?thesis by simp
qed

lemma qualifies_xp:
  "a \<in> set achievementsDef \<Longrightarrow> qualifies (s\<lparr>xp := x, totalXp := t\<rparr>) a = qualifies s a"
  by (simp add: qualifies_def condition_xp)

lemma cascade_settled:
  "(\<forall>a\<in>set achievementsDef. \<not> qualifies s a) \<Longrightarrow>
     (\<forall>a\<in>set achievementsDef. \<not> qualifies (addXP now n s) a)"
  "(\<forall>a\<in>set achievementsDef. \<not> qualifies s a) \<Longrightarrow>
     (\<forall>a\<in>set achievementsDef. \<not> qualifies (checkLevelUp now s) a)"
  "\<forall>a\<in>set achievementsDef. \<not> qualifies (checkAchievements now s) a"
  "(\<forall>a\<in>set achievementsDef. \<not> qualifies s a) \<Longrightarrow>
     (\<forall>a\<in>set achievementsDef. \<not> qualifies (grantAll now as s) a)"
proof (induction now n s and now s and now s and now as s
    rule: addXP_checkLevelUp_checkAchievements_grantAll.induct)
  case (1 now n s)
  from 1(2) have "\<forall>a\<in>set achievementsDef. \<not> qualifies (s\<lparr>xp := xp s + n, totalXp := totalXp s + n\<rparr>) a"
    by (simp add: qualifies_xp)
  from 1(1) [OF this] show ?case by (simp add: addXP.simps)
next
  case (2 now s)
  show ?case
  proof (cases "level s < computeLevel (totalXp s)")
    case True
    from 2(1) [OF refl refl True] True show ?thesis by (simp add: checkLevelUp.simps)
  next
    case False
    with 2(2) show ?thesis by (simp add: checkLevelUp.simps)
  qed
next
  case (3 now s)
  obtain x y where xy: "collectNew now achievementsDef s [] = (x, y)"
    by (cases "collectNew now achievementsDef s []")
  have "\<forall>a\<in>set achievementsDef. \<not> qualifies x a"
    using qualifies_after_collect [of _ now s] xy by simp
  from 3 [OF xy [symmetric] this] xy show ?case by (simp add: checkAchievements.simps)
next
  case (4 now s)
  then show ?case by simp
next
  case (5 now a as s)
  from 5(2) [OF 5(1) [OF 5(3)]] show ?case by simp
qed

lemma checkAchievements_settled:
  assumes "\<forall>a\<in>set achievementsDef. \<not> qualifies s a"
  shows "checkAchievements now s = s"
  by (simp add: checkAchievements.simps collectNew_settled [OF assms])

text \<open>
  Claim C5. For every state, an achievement pass run directly after another one
  unlocks nothing (its list of new achievements is empty), leaves the achievements
  map and \<^verbatim>\<open>totalXp\<close> unchanged, and in fact returns the state it was given.
\<close>

theorem checkAchievements_idempotent:
  "snd (collectNew now2 achievementsDef (checkAchievements now1 s) []) = [] \<and>
   achievements (checkAchievements now2 (checkAchievements now1 s)) =
     achievements (checkAchievements now1 s) \<and>
   totalXp (checkAchievements now2 (checkAchievements now1 s)) =
     totalXp (checkAchievements now1 s) \<and>
   checkAchievements now2 (checkAchievements now1 s) = checkAchievements now1 s"
proof -
  have st: "\<forall>a\<in>set achievementsDef. \<not> qualifies (checkAchievements now1 s) a"
    by (rule cascade_settled(3))
  have "checkAchievements now2 (checkAchievements now1 s) = checkAchievements now1 s"
    by (rule checkAchievements_settled [OF st])
  moreover have "snd (collectNew now2 achievementsDef (checkAchievements now1 s) []) = []"
    by (simp add: collectNew_settled [OF st])
  ultimately show ?thesis by simp
qed

section \<open>Logging water: streaks and day counters\<close>

lemmas cascade_fields = cascade_sameCore [unfolded sameCore_def]

lemma handleGoalAchieved_streak: "streak (handleGoalAchieved now s) = streak s + 1"
  by (simp add: handleGoalAchieved_def Let_def cascade_fields)

lemma handleGoalAchieved_stats:
  "stats (handleGoalAchieved now s) =
     (stats s)\<lparr>bestStreak := max (bestStreak (stats s)) (streak s + 1),
       perfectDays := perfectDays (stats s) + 1, totalDays := totalDays (stats s) + 1\<rparr>"
  by (simp add: handleGoalAchieved_def Let_def cascade_fields max_def)

lemma addWater_streak:
  "streak (addWater amt now s) = (if crossing s amt then streak s + 1 else streak s)"
  by (simp add: addWater_def Let_def cascade_fields handleGoalAchieved_streak crossing_def)

lemma addWater_stats:
  "stats (addWater amt now s) =
     (if crossing s amt
      then (stats s)\<lparr>glassesCount := glassesCount (stats s) + 1,
             totalWater := totalWater (stats s) + amt,
             bestStreak := max (bestStreak (stats s)) (streak s + 1),
             perfectDays := perfectDays (stats s) + 1, totalDays := totalDays (stats s) + 1\<rparr>
      else (stats s)\<lparr>glassesCount := glassesCount (stats s) + 1,
             totalWater := totalWater (stats s) + amt\<rparr>)"
  by (simp add: addWater_def Let_def cascade_fields handleGoalAchieved_stats crossing_def)

lemma streakInv_handleGoalAchieved: "streakInv s \<Longrightarrow> streakInv (handleGoalAchieved now s)"
  by (auto simp: streakInv_def handleGoalAchieved_streak handleGoalAchieved_stats)

lemma streakInv_applyOp: "streakInv s \<Longrightarrow> streakInv (applyOp c s)"
proof (cases c)
  case (AddWater amt now)
  assume "streakInv s"
  then show ?thesis
    by (auto simp: AddWater streakInv_def addWater_streak addWater_stats)
next
  case (CheckNewDay now)
  assume "streakInv s"
  then show ?thesis
    by (simp add: CheckNewDay streakInv_def checkNewDay_def Let_def split: option.splits)
next
  case (SaveSettings g sound notif)
  assume "streakInv s"
  then show ?thesis
    by (simp add: SaveSettings streakInv_def saveSettings_def Let_def split: option.splits)
next
  case (EnableReminders granted interval startT endT)
  assume "streakInv s"
  then show ?thesis
    by (simp add: EnableReminders streakInv_def enableReminders_def)
next
  case DisableReminders
  assume "streakInv s"
  then show ?thesis
    by (simp add: DisableReminders streakInv_def disableReminders_def)
qed

lemma streakInv_run: "streakInv s \<Longrightarrow> streakInv (run cs s)"
  by (induction cs arbitrary: s) (simp_all add: streakInv_applyOp)

lemma streakInv_initial: "streakInv initialState"
  by (simp add: streakInv_def initialState_def)

text \<open>
  Claim C9. In every state reached from the initial state by a sequence of
  operations (logging water, day rollover, settings, reminders) the best streak is
  at least the streak, and this also holds after the goal handler runs on such a
  state.
\<close>

theorem bestStreak_ge_streak:
  "streak (run cs initialState) \<le> bestStreak (stats (run cs initialState)) \<and>
   streak (handleGoalAchieved now (run cs initialState))
     \<le> bestStreak (stats (handleGoalAchieved now (run cs initialState)))"
  using streakInv_run [OF streakInv_initial, of cs]
    streakInv_handleGoalAchieved [OF streakInv_run [OF streakInv_initial, of cs], of now]
  by (simp add: streakInv_def)

lemma daysInv_applyOp: "daysInv s \<Longrightarrow> daysInv (applyOp c s)"
proof (cases c)
  case (AddWater amt now)
  assume "daysInv s"
  then show ?thesis
    by (simp add: AddWater daysInv_def addWater_stats)
next
  case (CheckNewDay now)
  assume "daysInv s"
  then show ?thesis
    by (simp add: CheckNewDay daysInv_def checkNewDay_def Let_def split: option.splits)
next
  case (SaveSettings g sound notif)
  assume "daysInv s"
  then show ?thesis
    by (simp add: SaveSettings daysInv_def saveSettings_def Let_def split: option.splits)
next
  case (EnableReminders granted interval startT endT)
  assume "daysInv s"
  then show ?thesis
    by (simp add: EnableReminders daysInv_def enableReminders_def)
next
  case DisableReminders
  assume "daysInv s"
  then show ?thesis
    by (simp add: DisableReminders daysInv_def disableReminders_def)
qed

lemma daysInv_run: "daysInv s \<Longrightarrow> daysInv (run cs s)"
  by (induction cs arbitrary: s) (simp_all add: daysInv_applyOp)

text \<open>
  Claim C10. In every state reached from the initial state by a sequence of
  operations, \<^verbatim>\<open>stats.totalDays\<close> equals \<^verbatim>\<open>stats.perfectDays\<close>: the two counters
  are only ever incremented together, by the goal handler.
\<close>

theorem totalDays_eq_perfectDays:
  "totalDays (stats (run cs initialState)) = perfectDays (stats (run cs initialState))"
proof -
  have "daysInv initialState" by (simp add: daysInv_def initialState_def)
  from daysInv_run [OF this, of cs] show ?thesis by (simp add: daysInv_def)
qed

section \<open>Levels\<close>













section \<open>XP gained by logging water\<close>

















section \<open>Merging the cloud copy\<close>

lemma loadFromCloud_document:
  assumes "\<not> noToken token" and "reachable srv"
  shows "loadFromCloud (Returns token) (fetchGet srv) = Returns (document srv)"
  using assms
  by (cases "document srv")
    (simp_all add: loadFromCloud_def loadFromCloudTry_def fetchGet_def ok_def)

lemma sendPut_stores:
  assumes "\<not> noToken token" and "reachable srv"
  shows "sendPut (Returns token) st srv = (Returns True, srv\<lparr>document := Some st\<rparr>)"
  using assms
  by (simp add: sendPut_def fetchPut_def saveToCloud_def saveToCloudTry_def ok_def)

lemma handleSignIn_merge:
  assumes "email \<noteq> []" and "password \<noteq> []" and "\<not> noToken token" and "reachable srv"
    and "document srv = Some c"
  shows "handleSignIn email password (Returns user) (Returns token) (a, srv) =
     (let winner = (if totalXp c > totalXp (appState a) \<or>
                       totalWater (stats c) > totalWater (stats (appState a))
                    then c else appState a)
      in (a\<lparr>appState := winner, isAuthenticated := True, userEmail := Some (fst user),
             localStorage := Some winner\<rparr>,
          srv\<lparr>document := Some winner\<rparr>))"
  using assms
  by (simp add: handleSignIn_def loadFromCloud_document sendPut_stores Let_def spread_def
      saveStateLocal_def)

lemma checkExistingSession_merge:
  assumes "\<not> noToken token" and "reachable srv" and "document srv = Some c"
  shows "checkExistingSession (Returns (Some user)) (Returns token) (a, srv) =
     (if totalXp c > totalXp (appState a) \<or>
         totalWater (stats c) > totalWater (stats (appState a))
      then (a\<lparr>appState := c, isAuthenticated := True, userEmail := Some (fst user),
               localStorage := Some c\<rparr>, srv)
      else (a\<lparr>isAuthenticated := True, userEmail := Some (fst user)\<rparr>, srv))"
  using assms
  by (simp add: checkExistingSession_def loadFromCloud_document Let_def spread_def
      saveStateLocal_def)

text \<open>
  Claim C1. With a session present, a token and a reachable remote resource whose
  copy has less XP (300) than the local state (500) and the same total water, the
  local state wins; \<^verbatim>\<open>checkExistingSession\<close> leaves the remote resource holding the
  losing copy, while \<^verbatim>\<open>handleSignIn\<close> on the same input stores the winner there.
\<close>

theorem checkExistingSession_keeps_stale_cloud:
  "totalXp cloudBehind < totalXp localAhead \<and>
   totalWater (stats cloudBehind) = totalWater (stats localAhead) \<and>
   appState (fst (checkExistingSession (Returns (Some (''u@example.org'', ''tok'')))
      (Returns (Some ''tok'')) (resumedApp, cloudServer))) = localAhead \<and>
   document (snd (checkExistingSession (Returns (Some (''u@example.org'', ''tok'')))
      (Returns (Some ''tok'')) (resumedApp, cloudServer))) = Some cloudBehind \<and>
   document (snd (handleSignIn ''u@example.org'' ''secret'' (Returns (''u@example.org'', ''tok''))
      (Returns (Some ''tok'')) (resumedApp, cloudServer))) = Some localAhead"
proof -
  have t: "\<not> noToken (Some ''tok'')" by simp
  have r: "reachable cloudServer" and d: "document cloudServer = Some cloudBehind"
    by (simp_all add: cloudServer_def)
  have x: "totalXp cloudBehind < totalXp localAhead"
    and w: "totalWater (stats cloudBehind) = totalWater (stats localAhead)"
    by (simp_all add: cloudBehind_def localAhead_def initialState_def)
  have a: "appState resumedApp = localAhead" by (simp add: resumedApp_def)
  show ?thesis
    using x w
    by (simp add: checkExistingSession_merge [OF t r d] handleSignIn_merge [OF _ _ t r d] a d)
qed


end
